theory Spec2Isabelle
  imports Main
begin

section \<open>Python strings\<close>

text \<open>
  A Python \<open>str\<close> is a sequence of Unicode code points, so the model is a list of
  code points. \<open>py\<close> turns an ASCII literal into such a list.
\<close>

type_synonym pystr = "nat list"

definition py :: "string \<Rightarrow> pystr" where
  "py s = map of_char s"

text \<open>\<open>str.isspace\<close> on one character; the same table decides \<open>str.strip()\<close>
  and the regular expression class \<open>\s\<close>.\<close>

definition isspace :: "nat \<Rightarrow> bool" where
  "isspace c =
     ((9 \<le> c \<and> c \<le> 13) \<or> (28 \<le> c \<and> c \<le> 32) \<or> c = 133 \<or> c = 160 \<or> c = 5760 \<or>
      (8192 \<le> c \<and> c \<le> 8202) \<or> c = 8232 \<or> c = 8233 \<or> c = 8239 \<or> c = 8287 \<or>
      c = 12288)"

definition strip :: "pystr \<Rightarrow> pystr" where
  "strip s = rev (dropWhile isspace (rev (dropWhile isspace s)))"

fun startswith :: "pystr \<Rightarrow> pystr \<Rightarrow> bool" where
  "startswith s [] = True"
| "startswith [] (p # ps) = False"
| "startswith (c # cs) (p # ps) = (c = p \<and> startswith cs ps)"

text \<open>\<open>sub in s\<close> for strings.\<close>

fun py_in :: "pystr \<Rightarrow> pystr \<Rightarrow> bool" where
  "py_in sub [] = (sub = [])"
| "py_in sub (c # cs) = (startswith (c # cs) sub \<or> py_in sub cs)"

text \<open>
  The decimal digits of Unicode (category Nd) come in runs of ten consecutive code
  points, zero first. \<open>decimal_blocks\<close> lists the first code point of each run (Unicode
  14.0, the table of CPython 3.11); \<open>py_decimal\<close> gives the value of a decimal digit.
  The regular expression class \<open>\d\<close> and \<open>int()\<close> both use this table.
\<close>

definition decimal_blocks :: "nat list" where
  "decimal_blocks =
     [48, 1632, 1776, 1984, 2406, 2534, 2662, 2790, 2918, 3046, 3174, 3302, 3430, 3558,
      3664, 3792, 3872, 4160, 4240, 6112, 6160, 6470, 6608, 6784, 6800, 6992, 7088, 7232,
      7248, 42528, 43216, 43264, 43472, 43504, 43600, 44016, 65296, 66720, 68912, 69734,
      69872, 69942, 70096, 70384, 70736, 70864, 71248, 71360, 71472, 71904, 72016, 72784,
      73040, 73120, 92768, 92864, 93008, 120782, 120792, 120802, 120812, 120822, 123200,
      123632, 125264, 130032]"

definition py_decimal :: "nat \<Rightarrow> nat option" where
  "py_decimal c = map_option (\<lambda>b. c - b) (find (\<lambda>b. b \<le> c \<and> c < b + 10) decimal_blocks)"

section \<open>Exceptions\<close>

text \<open>
  \<open>ValueError\<close> and \<open>OverflowError\<close> are raised by the standard library calls that are
  modelled below. \<open>Failure d\<close> stands for any exception derived from \<open>Exception\<close> that
  an external collaborator raises (requests, smtplib, the socket layer), with \<open>d\<close> its
  \<open>str()\<close>. All of them are caught by \<open>except Exception\<close>. KeyboardInterrupt and
  SystemExit, which are not, stop the process from outside and are not part of the model.
\<close>

datatype error = ValueError | OverflowError | Failure pystr

section \<open>\<open>int()\<close> on a string\<close>

text \<open>Digits with single underscores between them: \<open>d(_?d)*\<close>.\<close>

fun digits_us :: "pystr \<Rightarrow> nat list option" where
  "digits_us [] = None"
| "digits_us [c] = map_option (\<lambda>d. [d]) (py_decimal c)"
| "digits_us (c # u # cs) =
     (case py_decimal c of
        None \<Rightarrow> None
      | Some d \<Rightarrow> map_option ((#) d) (if u = 95 then digits_us cs else digits_us (u # cs)))"

definition int_max_str_digits :: nat where
  "int_max_str_digits = 4300"

text \<open>
  \<open>int(s)\<close>: surrounding whitespace is dropped, one sign is allowed, then come decimal
  digits; anything else is a ValueError, and so is a literal of more digits than the
  interpreter's limit.
\<close>

definition py_int :: "pystr \<Rightarrow> error + int" where
  "py_int s =
     (let t = strip s;
          neg = (case t of c # _ \<Rightarrow> c = 45 | [] \<Rightarrow> False);
          body = (case t of c # r \<Rightarrow> if c = 43 \<or> c = 45 then r else t | [] \<Rightarrow> t)
      in case digits_us body of
           None \<Rightarrow> Inl ValueError
         | Some ds \<Rightarrow>
             if int_max_str_digits < length ds then Inl ValueError
             else let n = int (foldl (\<lambda>acc d. 10 * acc + d) 0 ds)
                  in Inr (if neg then - n else n))"

section \<open>Dates\<close>

record date =
  year :: nat
  month :: nat
  day :: nat

definition is_leap :: "nat \<Rightarrow> bool" where
  "is_leap y = (y mod 4 = 0 \<and> (y mod 100 \<noteq> 0 \<or> y mod 400 = 0))"

definition days_in_month :: "nat \<Rightarrow> nat \<Rightarrow> nat" where
  "days_in_month y m =
     (if m = 2 then (if is_leap y then 29 else 28)
      else if m = 4 \<or> m = 6 \<or> m = 9 \<or> m = 11 then 30 else 31)"

text \<open>The constructor \<open>datetime.date(year, month, day)\<close>, which validates its arguments.\<close>

definition datetime_date :: "int \<Rightarrow> nat \<Rightarrow> int \<Rightarrow> error + date" where
  "datetime_date y m d =
     (if y < 1 \<or> 9999 < y then Inl ValueError
      else if m < 1 \<or> 12 < m then Inl ValueError
      else if d < 1 \<or> int (days_in_month (nat y) m) < d then Inl ValueError
      else Inr \<lparr>year = nat y, month = m, day = nat d\<rparr>)"

text \<open>\<open>a > b\<close> on dates compares year, month and day in this order.\<close>

definition date_gt :: "date \<Rightarrow> date \<Rightarrow> bool" where
  "date_gt a b =
     (year b < year a \<or> (year a = year b \<and>
        (month b < month a \<or> (month a = month b \<and> day b < day a))))"

section \<open>\<open>strptime\<close> with the format \<open>%A %B %d, %Y\<close>\<close>


text \<open>
  \<open>_strptime\<close> turns the format into the regular expression
  \<^verbatim>\<open>(?P<A>wednesday|...)\s+(?P<B>september|...)\s+(?P<d>3[0-1]|[1-2]\d|0[1-9]|[1-9]| [1-9]),\s+(?P<Y>\d\d\d\d)\<close>,
  compiled with IGNORECASE, and matches it at the start of the text. Each piece below
  returns its successes in the order a backtracking matcher tries them: the text a group
  matched, paired with the input that is left.
\<close>

definition f_weekday :: "pystr list" where
  "f_weekday = [py ''monday'', py ''tuesday'', py ''wednesday'', py ''thursday'',
                py ''friday'', py ''saturday'', py ''sunday'']"

definition f_month :: "pystr list" where
  "f_month = [[], py ''january'', py ''february'', py ''march'', py ''april'', py ''may'',
              py ''june'', py ''july'', py ''august'', py ''september'', py ''october'',
              py ''november'', py ''december'']"

text \<open>The alternatives of a name group, longest first (a stable sort by length).\<close>

definition re_A_words :: "pystr list" where
  "re_A_words = [py ''wednesday'', py ''thursday'', py ''saturday'', py ''tuesday'',
                 py ''monday'', py ''friday'', py ''sunday'']"

definition re_B_words :: "pystr list" where
  "re_B_words = [py ''september'', py ''february'', py ''november'', py ''december'',
                 py ''january'', py ''october'', py ''august'', py ''march'', py ''april'',
                 py ''june'', py ''july'', py ''may'']"

text \<open>
  A lower-case letter \<open>p\<close> of the pattern against a character \<open>c\<close> of the text under
  IGNORECASE: the letter itself, its capital, and the characters the matcher treats as
  case variants of i, s and k (U+0130, U+0131, U+017F, U+212A).
\<close>

definition re_ci :: "nat \<Rightarrow> nat \<Rightarrow> bool" where
  "re_ci p c =
     (c = p \<or> c + 32 = p \<or> (p = 105 \<and> (c = 304 \<or> c = 305)) \<or> (p = 115 \<and> c = 383) \<or>
      (p = 107 \<and> c = 8490))"

fun re_word :: "pystr \<Rightarrow> pystr \<Rightarrow> (pystr \<times> pystr) option" where
  "re_word [] s = Some ([], s)"
| "re_word (p # ps) [] = None"
| "re_word (p # ps) (c # cs) =
     (if re_ci p c then map_option (\<lambda>(m, r). (c # m, r)) (re_word ps cs) else None)"

definition re_words :: "pystr list \<Rightarrow> pystr \<Rightarrow> (pystr \<times> pystr) list" where
  "re_words ws s = List.map_filter (\<lambda>w. re_word w s) ws"

text \<open>\<open>\s+\<close> is greedy: the whole run of whitespace first, then shorter ones.\<close>

definition re_spaces :: "pystr \<Rightarrow> pystr list" where
  "re_spaces s = map (\<lambda>k. drop k s) (rev [1 ..< Suc (length (takeWhile isspace s))])"

definition re_comma :: "pystr \<Rightarrow> pystr list" where
  "re_comma s = (case s of c # r \<Rightarrow> if c = 44 then [r] else [] | [] \<Rightarrow> [])"

definition in_range :: "nat \<Rightarrow> nat \<Rightarrow> nat \<Rightarrow> bool" where
  "in_range lo hi c = (lo \<le> c \<and> c \<le> hi)"

definition re_d :: "pystr \<Rightarrow> (pystr \<times> pystr) list" where
  "re_d s =
     (case s of
        [] \<Rightarrow> []
      | [c] \<Rightarrow> if in_range 49 57 c then [([c], [])] else []
      | c # c' # r \<Rightarrow>
          (if c = 51 \<and> in_range 48 49 c' then [([c, c'], r)] else []) @
          (if in_range 49 50 c \<and> py_decimal c' \<noteq> None then [([c, c'], r)] else []) @
          (if c = 48 \<and> in_range 49 57 c' then [([c, c'], r)] else []) @
          (if in_range 49 57 c then [([c], c' # r)] else []) @
          (if c = 32 \<and> in_range 49 57 c' then [([c, c'], r)] else []))"

definition re_Y :: "pystr \<Rightarrow> (pystr \<times> pystr) list" where
  "re_Y s =
     (case s of
        c1 # c2 # c3 # c4 # r \<Rightarrow>
          if py_decimal c1 \<noteq> None \<and> py_decimal c2 \<noteq> None \<and> py_decimal c3 \<noteq> None \<and>
             py_decimal c4 \<noteq> None
          then [([c1, c2, c3, c4], r)] else []
      | _ \<Rightarrow> [])"

text \<open>What follows the weekday: the groups B, d, Y with the unmatched rest.\<close>

definition re_after_A :: "pystr \<Rightarrow> ((pystr \<times> pystr \<times> pystr) \<times> pystr) list" where
  "re_after_A s1 =
     [((b, d, y), s8).
        s2 \<leftarrow> re_spaces s1, (b, s3) \<leftarrow> re_words re_B_words s2, s4 \<leftarrow> re_spaces s3,
        (d, s5) \<leftarrow> re_d s4, s6 \<leftarrow> re_comma s5, s7 \<leftarrow> re_spaces s6,
        (y, s8) \<leftarrow> re_Y s7]"

text \<open>The groups A, B, d, Y of every match, with the unmatched rest of the text.\<close>

definition format_regex_match :: "pystr \<Rightarrow> ((pystr \<times> pystr \<times> pystr \<times> pystr) \<times> pystr) list" where
  "format_regex_match s =
     [((a, b, d, y), s8). (a, s1) \<leftarrow> re_words re_A_words s, ((b, d, y), s8) \<leftarrow> re_after_A s1]"

text \<open>
  \<open>str.lower()\<close> on the text of a name group. Of the characters such a group can hold,
  the capitals and U+212A have a one-letter lower case, U+0130 becomes two code points
  and the others stay.
\<close>

definition lower_char :: "nat \<Rightarrow> pystr" where
  "lower_char c =
     (if in_range 65 90 c then [c + 32] else if c = 8490 then [107]
      else if c = 304 then [105, 775] else [c])"

definition str_lower :: "pystr \<Rightarrow> pystr" where
  "str_lower s = concat (map lower_char s)"

text \<open>\<open>list.index\<close>, which raises ValueError for a value that is not in the list.\<close>

fun list_index :: "'a list \<Rightarrow> 'a \<Rightarrow> error + nat" where
  "list_index [] v = Inl ValueError"
| "list_index (x # xs) v =
     (if x = v then Inr 0 else case list_index xs v of Inl e \<Rightarrow> Inl e | Inr i \<Rightarrow> Inr (Suc i))"

text \<open>
  \<open>datetime.strptime(text, "%A %B %d, %Y").date()\<close>. The first match is taken; text
  left over after it is an error. The groups are converted in the order A, B, d, Y; the
  weekday found is not used for the result.
\<close>

definition strptime :: "pystr \<Rightarrow> error + date" where
  "strptime data_string =
     (case format_regex_match data_string of
        [] \<Rightarrow> Inl ValueError
      | ((a, b, d, y), rest) # _ \<Rightarrow>
          if rest \<noteq> [] then Inl ValueError
          else case list_index f_weekday (str_lower a) of
                 Inl e \<Rightarrow> Inl e
               | Inr weekday \<Rightarrow>
                   (case list_index f_month (str_lower b) of
                      Inl e \<Rightarrow> Inl e
                    | Inr month_no \<Rightarrow>
                        (case py_int d of
                           Inl e \<Rightarrow> Inl e
                         | Inr day_no \<Rightarrow>
                             (case py_int y of
                                Inl e \<Rightarrow> Inl e
                              | Inr year_no \<Rightarrow> datetime_date year_no month_no day_no))))"

section \<open>The parsed document\<close>

text \<open>
  \<open>BeautifulSoup(html, "html.parser")\<close> gives a tree of tags and strings. A string
  node has a class (\<open>NavigableString\<close> or one of its subclasses); a tag has a name and
  children. The model starts from this tree.
\<close>

datatype string_class =
  NavigableString | CData | Comment | Declaration | Doctype | ProcessingInstruction |
  Stylesheet | Script | TemplateString

datatype element = Tag pystr "element list" | Str string_class pystr

type_synonym soup = "element list"

text \<open>Document order: an element, then its descendants.\<close>

fun self_and_descendants :: "element \<Rightarrow> element list" where
  "self_and_descendants (Str k s) = [Str k s]"
| "self_and_descendants (Tag n cs) = Tag n cs # concat (map self_and_descendants cs)"

definition descendants :: "element list \<Rightarrow> element list" where
  "descendants cs = concat (map self_and_descendants cs)"

text \<open>Each element with its \<open>next_elements\<close>: all that follows it in document order,
  its own descendants first.\<close>

fun with_next_elements :: "element list \<Rightarrow> (element \<times> element list) list" where
  "with_next_elements [] = []"
| "with_next_elements (e # es) = (e, es) # with_next_elements es"

fun is_tag_named :: "pystr list \<Rightarrow> element \<Rightarrow> bool" where
  "is_tag_named names (Tag n cs) = (n \<in> set names)"
| "is_tag_named names (Str k s) = False"

definition find_all :: "pystr list \<Rightarrow> soup \<Rightarrow> (element \<times> element list) list" where
  "find_all names doc =
     filter (\<lambda>(e, nxt). is_tag_named names e) (with_next_elements (descendants doc))"

text \<open>
  \<open>get_text(strip=True)\<close> of a tag: the strings below it of class NavigableString or
  CData, each stripped, the empty ones dropped, joined with nothing between them. The
  program calls it on tags only.
\<close>

fun stripped_string :: "element \<Rightarrow> pystr list" where
  "stripped_string (Str k s) =
     (if (k = NavigableString \<or> k = CData) \<and> strip s \<noteq> [] then [strip s] else [])"
| "stripped_string (Tag n cs) = []"

fun get_text :: "element \<Rightarrow> pystr" where
  "get_text (Tag n cs) = concat (concat (map stripped_string (descendants cs)))"
| "get_text (Str k s) = strip s"

text \<open>
  \<open>find_next(string=True)\<close>: the first string of any class among the next elements.
  The search passes over an element that is falsy, so an empty string is never found.
\<close>

fun find_next_string :: "element list \<Rightarrow> pystr option" where
  "find_next_string [] = None"
| "find_next_string (Str k s # es) = (if s \<noteq> [] then Some s else find_next_string es)"
| "find_next_string (Tag n cs # es) = find_next_string es"

section \<open>\<open>parse_available_dates\<close>\<close>

text \<open>
  One pass of the loop body for a heading with its next elements: \<open>Inr None\<close> is
  \<open>continue\<close> (or falling off the end without appending), \<open>Inr (Some r)\<close> appends
  \<open>r\<close>, \<open>Inl e\<close> is an exception that leaves the function. Only ValueError is
  caught around \<open>strptime\<close>.
\<close>

definition heading_body :: "date \<Rightarrow> element \<Rightarrow> element list \<Rightarrow> error + (date \<times> pystr) option" where
  "heading_body cutoff heading nxt =
     (let text = get_text heading in
      if \<not> py_in (py ''202'') text then Inr None
      else case strptime text of
             Inl e \<Rightarrow> if e = ValueError then Inr None else Inl e
           | Inr date_obj \<Rightarrow>
               if date_gt date_obj cutoff then Inr None
               else let status_text = (case find_next_string nxt of
                                         Some status_elem \<Rightarrow> strip status_elem
                                       | None \<Rightarrow> [])
                    in if status_text = [] then Inr None
                       else if \<not> py_in (py ''No more available time slots'') status_text
                       then Inr (Some (date_obj, status_text))
                       else Inr None)"

fun for_headings ::
  "date \<Rightarrow> (date \<times> pystr) list \<Rightarrow> (element \<times> element list) list \<Rightarrow> error + (date \<times> pystr) list" where
  "for_headings cutoff available [] = Inr available"
| "for_headings cutoff available ((heading, nxt) # hs) =
     (case heading_body cutoff heading nxt of
        Inl e \<Rightarrow> Inl e
      | Inr None \<Rightarrow> for_headings cutoff available hs
      | Inr (Some r) \<Rightarrow> for_headings cutoff (available @ [r]) hs)"

definition parse_available_dates :: "soup \<Rightarrow> date \<Rightarrow> error + (date \<times> pystr) list" where
  "parse_available_dates doc cutoff =
     for_headings cutoff [] (find_all [py ''h2'', py ''h3'', py ''h4''] doc)"

section \<open>\<open>send_email_notification\<close>\<close>

text \<open>
  What the program does to the outside is recorded as a list of events: one constructor
  for each \<open>print\<close> statement, carrying the values the line is formatted from, one for
  the mail session and one for a completed \<open>time.sleep\<close>.
\<close>

record smtp_request =
  host :: pystr
  port :: int
  login_user :: pystr
  login_password :: pystr
  mail_from :: pystr
  mail_to :: pystr
  body_cutoff :: date
  body_url :: pystr
  body_lines :: "(date \<times> pystr) list"

datatype event =
    Print_found pystr
  | Print_slot date pystr
  | Print_act_quickly
  | Print_none pystr date
  | Log_error pystr error
  | Warn_missing "pystr list"
  | Smtp_session smtp_request
  | Info_sent pystr
  | Error_send error
  | Slept int

type_synonym environ = "pystr \<rightharpoonup> pystr"

text \<open>Truth value of \<open>os.environ.get(k)\<close>: \<open>None\<close> and the empty string are falsy.\<close>

fun falsy :: "pystr option \<Rightarrow> bool" where
  "falsy None = True"
| "falsy (Some v) = (v = [])"

definition missing_keys :: "environ \<Rightarrow> pystr list" where
  "missing_keys env =
     map fst (filter (\<lambda>(k, v). falsy v)
       [(py ''APPT_MAIL_SENDER'', env (py ''APPT_MAIL_SENDER'')),
        (py ''APPT_MAIL_RECIPIENT'', env (py ''APPT_MAIL_RECIPIENT'')),
        (py ''APPT_MAIL_SMTP_SERVER'', env (py ''APPT_MAIL_SMTP_SERVER'')),
        (py ''APPT_MAIL_SMTP_PASSWORD'', env (py ''APPT_MAIL_SMTP_PASSWORD''))])"

definition message_of :: "pystr \<Rightarrow> pystr" where
  "message_of status = (if status \<noteq> [] then status else py ''Available'')"

text \<open>
  The function returns the events it caused and the exception that left it, if any.
  \<open>smtp\<close> is what the mail session does when it is opened: \<open>None\<close> when it runs
  through, or the exception it raises. The port is converted on entry, before the
  required values are checked and outside the \<open>try\<close>.
\<close>

definition send_email_notification ::
  "environ \<Rightarrow> error option \<Rightarrow> (date \<times> pystr) list \<Rightarrow> pystr \<Rightarrow> date \<Rightarrow> event list \<times> error option" where
  "send_email_notification env smtp available_dates url cutoff_date =
     (let sender = env (py ''APPT_MAIL_SENDER'');
          recipient = env (py ''APPT_MAIL_RECIPIENT'');
          smtp_server = env (py ''APPT_MAIL_SMTP_SERVER'')
      in case py_int (case env (py ''APPT_MAIL_SMTP_PORT'') of None \<Rightarrow> py ''587'' | Some v \<Rightarrow> v) of
           Inl e \<Rightarrow> ([], Some e)
         | Inr smtp_port \<Rightarrow>
             let smtp_user = (if falsy (env (py ''APPT_MAIL_SMTP_USER'')) then sender
                              else env (py ''APPT_MAIL_SMTP_USER''));
                 smtp_password = env (py ''APPT_MAIL_SMTP_PASSWORD'');
                 missing = missing_keys env
             in if missing \<noteq> [] then ([Warn_missing missing], None)
                else let request =
                           \<lparr>host = the smtp_server, port = smtp_port, login_user = the smtp_user,
                            login_password = the smtp_password, mail_from = the sender,
                            mail_to = the recipient, body_cutoff = cutoff_date, body_url = url,
                            body_lines = map (\<lambda>(date_obj, status). (date_obj, message_of status))
                                           available_dates\<rparr>
                     in case smtp of
                          None \<Rightarrow> ([Smtp_session request, Info_sent (the recipient)], None)
                        | Some e \<Rightarrow> ([Smtp_session request, Error_send e], None))"

section \<open>\<open>monitor_appointments\<close>\<close>

text \<open>
  What the outside supplies in one cycle: the page \<open>fetch_page\<close> returns, as the parser
  reads it, or the exception it raises; the two clock readings; the behaviour of the mail
  session.
\<close>

record world =
  fetch_page :: "error + soup"
  timestamp :: pystr
  err_time :: pystr
  smtp :: "error option"





section \<open>Pages and settings used as examples\<close>

text \<open>The tree of \<^verbatim>\<open><h3>h</h3><div>t</div>\<close>: a heading followed by a text.\<close>

definition heading_then_text :: "pystr \<Rightarrow> pystr \<Rightarrow> soup" where
  "heading_then_text h t =
     [Tag (py ''h3'') [Str NavigableString h], Tag (py ''div'') [Str NavigableString t]]"

definition heading_A :: pystr where
  "heading_A = py ''Wednesday August 27, 2025''"

text \<open>The time ranges of Scenario A; 8211 is the en dash.\<close>

definition slots_A :: pystr where
  "slots_A = py ''10:00'' @ [8211] @ py ''12:00, 14:00'' @ [8211] @ py ''16:00''"

definition booked_B :: pystr where
  "booked_B = py ''No more available time slots for this date.''"

definition cutoff_0828 :: date where
  "cutoff_0828 = \<lparr>year = 2025, month = 8, day = 28\<rparr>"

definition date_0827 :: date where
  "date_0827 = \<lparr>year = 2025, month = 8, day = 27\<rparr>"

text \<open>The records one heading of the document adds to the result.\<close>

definition emitted :: "date \<Rightarrow> element \<times> element list \<Rightarrow> (date \<times> pystr) list" where
  "emitted cutoff hn =
     (case heading_body cutoff (fst hn) (snd hn) of Inr (Some r) \<Rightarrow> [r] | _ \<Rightarrow> [])"

text \<open>
  The words of the specification, "a 4-digit year token starting with 202": a token is
  read as a maximal run of ASCII digits.
\<close>

fun digit_tokens :: "pystr \<Rightarrow> pystr \<Rightarrow> pystr list" where
  "digit_tokens cur [] = (if cur = [] then [] else [cur])"
| "digit_tokens cur (c # cs) =
     (if in_range 48 57 c then digit_tokens (cur @ [c]) cs
      else (if cur = [] then [] else [cur]) @ digit_tokens [] cs)"

definition spec_year_token_202 :: "pystr \<Rightarrow> bool" where
  "spec_year_token_202 t =
     list_ex (\<lambda>tok. length tok = 4 \<and> startswith tok (py ''202'')) (digit_tokens [] t)"

text \<open>A mail configuration with every required value set, and one cycle whose fetch
  fails with HTTP status 503.\<close>

definition env_complete :: environ where
  "env_complete =
     map_of [(py ''APPT_MAIL_SENDER'', py ''from@example.org''),
             (py ''APPT_MAIL_RECIPIENT'', py ''to@example.org''),
             (py ''APPT_MAIL_SMTP_SERVER'', py ''smtp.example.org''),
             (py ''APPT_MAIL_SMTP_PASSWORD'', py ''secret'')]"


definition heading_0828 :: pystr where
  "heading_0828 = py ''Thursday August 28, 2025''"

text \<open>Headings used as examples, and the tag \<^verbatim>\<open><h3>t</h3>\<close>.\<close>

definition heading_1202 :: pystr where
  "heading_1202 = py ''Wednesday August 27, 1202''"

definition heading_1999 :: pystr where
  "heading_1999 = py ''Friday August 27, 1999''"


definition heading_C :: pystr where
  "heading_C = py ''Mon Aug 25, 2025''"


definition h3 :: "pystr \<Rightarrow> element" where
  "h3 t = Tag (py ''h3'') [Str NavigableString t]"






text \<open>Mail settings and a page address used as examples; \<open>smtp_port_of\<close> is the conversion of
  the port value on entry to the notifier.\<close>

definition env_bad_port :: environ where
  "env_bad_port = env_complete(py ''APPT_MAIL_SMTP_PORT'' \<mapsto> py ''abc'')"

definition env_no_password :: environ where
  "env_no_password =
     map_of [(py ''APPT_MAIL_SENDER'', py ''from@example.org''),
             (py ''APPT_MAIL_RECIPIENT'', py ''to@example.org''),
             (py ''APPT_MAIL_SMTP_SERVER'', py ''smtp.example.org'')]"

definition env_no_password_bad_port :: environ where
  "env_no_password_bad_port = env_no_password(py ''APPT_MAIL_SMTP_PORT'' \<mapsto> py ''abc'')"


definition smtp_port_of :: "environ \<Rightarrow> error + int" where
  "smtp_port_of env =
     py_int (case env (py ''APPT_MAIL_SMTP_PORT'') of None \<Rightarrow> py ''587'' | Some v \<Rightarrow> v)"

section \<open>Evaluation\<close>

lemmas string_defs = py_def strip_def isspace_def in_range_def py_decimal_def decimal_blocks_def

lemmas strptime_defs = py_int_def int_max_str_digits_def datetime_date_def days_in_month_def
  is_leap_def f_weekday_def f_month_def re_A_words_def re_B_words_def re_ci_def re_words_def
  re_spaces_def re_comma_def re_d_def re_Y_def re_after_A_def format_regex_match_def
  lower_char_def str_lower_def strptime_def List.map_filter_def

lemmas parse_defs = descendants_def find_all_def heading_body_def parse_available_dates_def
  date_gt_def heading_then_text_def

section \<open>The parser never fails\<close>

lemma list_index_error: "list_index xs v = Inl e \<Longrightarrow> e = ValueError"
  by (induction xs arbitrary: e) (auto split: if_splits sum.splits)

lemma py_int_error: "py_int s = Inl e \<Longrightarrow> e = ValueError"
  by (auto simp: py_int_def Let_def split: option.splits if_splits)

lemma datetime_date_error: "datetime_date y m d = Inl e \<Longrightarrow> e = ValueError"
  by (auto simp: datetime_date_def split: if_splits)

lemma strptime_error: "strptime t = Inl e \<Longrightarrow> e = ValueError"
  unfolding strptime_def
  by (auto split: list.splits prod.splits if_splits sum.splits
      dest: list_index_error py_int_error datetime_date_error)

lemma heading_body_total: "\<exists>r. heading_body cutoff h nxt = Inr r"
  by (auto simp: heading_body_def Let_def split: sum.splits option.splits dest: strptime_error)

lemma for_headings_eq:
  "for_headings cutoff acc hs = Inr (acc @ concat (map (emitted cutoff) hs))"
proof (induction hs arbitrary: acc)
  case Nil
  then show ?case by simp
next
  case (Cons hn hs)
  obtain h nxt where hn: "hn = (h, nxt)" by (cases hn)
  obtain r where r: "heading_body cutoff h nxt = Inr r" using heading_body_total by blast
  show ?case using Cons.IH r by (cases r) (simp_all add: hn emitted_def)
qed

lemma parse_eq:
  "parse_available_dates doc cutoff =
     Inr (concat (map (emitted cutoff) (find_all [py ''h2'', py ''h3'', py ''h4''] doc)))"
  by (simp add: parse_available_dates_def for_headings_eq)

section \<open>What a heading contributes\<close>

lemma heading_body_SomeD:
  assumes "heading_body cutoff h nxt = Inr (Some (d, s))"
  shows "py_in (py ''202'') (get_text h)" and "strptime (get_text h) = Inr d"
    and "\<not> date_gt d cutoff" and "s \<noteq> []"
    and "\<not> py_in (py ''No more available time slots'') s"
    and "\<exists>e. find_next_string nxt = Some e \<and> s = strip e"
  using assms
  by (auto simp: heading_body_def Let_def split: sum.splits option.splits if_splits)

lemma heading_body_emit:
  assumes "py_in (py ''202'') (get_text h)" and "strptime (get_text h) = Inr d"
    and "\<not> date_gt d cutoff" and "find_next_string nxt = Some e" and "strip e \<noteq> []"
    and "\<not> py_in (py ''No more available time slots'') (strip e)"
  shows "heading_body cutoff h nxt = Inr (Some (d, strip e))"
  using assms by (simp add: heading_body_def Let_def)

lemma emitted_member:
  assumes "(h, nxt) \<in> set (find_all [py ''h2'', py ''h3'', py ''h4''] doc)"
    and "heading_body cutoff h nxt = Inr (Some r)"
  shows "\<exists>rs. parse_available_dates doc cutoff = Inr rs \<and> r \<in> set rs"
proof -
  have "r \<in> set (emitted cutoff (h, nxt))" using assms(2) by (simp add: emitted_def)
  then show ?thesis using assms(1) unfolding parse_eq by auto
qed

lemma member_emitted:
  assumes "parse_available_dates doc cutoff = Inr rs" and "r \<in> set rs"
  shows "\<exists>h nxt. (h, nxt) \<in> set (find_all [py ''h2'', py ''h3'', py ''h4''] doc) \<and>
           heading_body cutoff h nxt = Inr (Some r)"
proof -
  from assms obtain hn where hn: "hn \<in> set (find_all [py ''h2'', py ''h3'', py ''h4''] doc)"
    and r: "r \<in> set (emitted cutoff hn)"
    unfolding parse_eq by auto
  from r have "heading_body cutoff (fst hn) (snd hn) = Inr (Some r)"
    by (auto simp: emitted_def split: sum.splits option.splits)
  then show ?thesis using hn by (intro exI[of _ "fst hn"] exI[of _ "snd hn"]) simp
qed

section \<open>Where the status text comes from\<close>

text \<open>
  In document order a tag is followed by its own descendants. So for a heading with any
  text the string that \<open>find_next(string=True)\<close> returns is the first string inside the
  heading, whatever comes after the heading.
\<close>

lemma find_next_string_append:
  "find_next_string (xs @ ys) =
     (case find_next_string xs of Some s \<Rightarrow> Some s | None \<Rightarrow> find_next_string ys)"
  by (induction xs rule: find_next_string.induct) auto

lemma strip_Nil: "strip [] = []"
  by (simp add: strip_def)

lemma text_gives_string:
  "concat (concat (map stripped_string es)) \<noteq> [] \<Longrightarrow> find_next_string es \<noteq> None"
  by (induction es rule: find_next_string.induct) (auto simp: strip_Nil split: if_splits)

lemma with_next_elements_split:
  "(e, nxt) \<in> set (with_next_elements es) \<Longrightarrow> \<exists>pre. es = pre @ e # nxt"
proof (induction es)
  case Nil
  then show ?case by simp
next
  case (Cons a es)
  then show ?case
  proof (cases "(e, nxt) = (a, es)")
    case True
    then show ?thesis by auto
  next
    case False
    with Cons obtain pre where "es = pre @ e # nxt" by auto
    then have "a # es = (a # pre) @ e # nxt" by simp
    then show ?thesis by blast
  qed
qed

lemma descendants_Cons: "descendants (e # es) = self_and_descendants e @ descendants es"
  by (simp add: descendants_def)

lemma self_and_descendants_Tag:
  "self_and_descendants (Tag n cs) = Tag n cs # descendants cs"
  by (simp add: descendants_def)

lemma tag_followed_by_descendants:
  "descendants es = pre @ Tag n cs # nxt \<Longrightarrow> \<exists>rest. nxt = descendants cs @ rest"
proof (induction "size_list size es" arbitrary: es pre nxt rule: less_induct)
  case less
  show ?case
  proof (cases es)
    case Nil
    with less.prems show ?thesis by (simp add: descendants_def)
  next
    case (Cons e es')
    from less.prems Cons have eq: "self_and_descendants e @ descendants es' = pre @ Tag n cs # nxt"
      by (simp add: descendants_Cons)
    then consider
      (left) u where "self_and_descendants e = pre @ Tag n cs # u" "nxt = u @ descendants es'"
    | (right) u where "pre = self_and_descendants e @ u" "descendants es' = u @ Tag n cs # nxt"
      by (auto simp: append_eq_append_conv2 append_eq_Cons_conv Cons_eq_append_conv)
    then show ?thesis
    proof cases
      case right
      have "size_list size es' < size_list size es" using Cons by simp
      from less.hyps[OF this right(2)] show ?thesis .
    next
      case left
      show ?thesis
      proof (cases e)
        case (Str k s)
        with left(1) show ?thesis by (auto simp: Cons_eq_append_conv)
      next
        case (Tag m ds)
        with left(1) have "Tag m ds # descendants ds = pre @ Tag n cs # u"
          by (simp add: descendants_def)
        then consider (here) "pre = []" "m = n" "ds = cs" "u = descendants ds"
          | (inside) pre' where "descendants ds = pre' @ Tag n cs # u"
          by (auto simp: Cons_eq_append_conv)
        then show ?thesis
        proof cases
          case here
          with left(2) show ?thesis by auto
        next
          case inside
          have "size_list size ds < size_list size es" using Cons Tag by simp
          from less.hyps[OF this inside] obtain rest where "u = descendants cs @ rest" by blast
          with left(2) show ?thesis by auto
        qed
      qed
    qed
  qed
qed

lemma status_from_inside_heading:
  assumes "(Tag n cs, nxt) \<in> set (find_all names doc)"
    and "get_text (Tag n cs) \<noteq> []"
  shows "find_next_string nxt = find_next_string (descendants cs)"
    and "find_next_string nxt \<noteq> None"
proof -
  from assms(1) have "(Tag n cs, nxt) \<in> set (with_next_elements (descendants doc))"
    by (simp add: find_all_def)
  then obtain pre where "descendants doc = pre @ Tag n cs # nxt"
    using with_next_elements_split by blast
  then obtain rest where nxt: "nxt = descendants cs @ rest"
    using tag_followed_by_descendants by blast
  from assms(2) have "concat (concat (map stripped_string (descendants cs))) \<noteq> []"
    by simp
  then have some: "find_next_string (descendants cs) \<noteq> None"
    by (rule text_gives_string)
  then show "find_next_string nxt = find_next_string (descendants cs)"
    by (auto simp: nxt find_next_string_append)
  with some show "find_next_string nxt \<noteq> None" by simp
qed

lemma is_tag_namedD: "is_tag_named names e \<Longrightarrow> \<exists>n cs. e = Tag n cs"
  by (cases e) auto

text \<open>Hence the status text of every record of the result is the first string inside
  one of the headings, stripped.\<close>

lemma record_status_is_heading_string:
  assumes "parse_available_dates doc cutoff = Inr rs" and "(d, s) \<in> set rs"
  shows "\<exists>n cs nxt e. (Tag n cs, nxt) \<in> set (find_all [py ''h2'', py ''h3'', py ''h4''] doc) \<and>
           find_next_string (descendants cs) = Some e \<and> s = strip e"
proof -
  from member_emitted[OF assms] obtain h nxt where
    mem: "(h, nxt) \<in> set (find_all [py ''h2'', py ''h3'', py ''h4''] doc)"
    and body: "heading_body cutoff h nxt = Inr (Some (d, s))" by blast
  from mem have "is_tag_named [py ''h2'', py ''h3'', py ''h4''] h" by (auto simp: find_all_def)
  then obtain n cs where h: "h = Tag n cs" using is_tag_namedD by blast
  from heading_body_SomeD(1)[OF body] have "get_text h \<noteq> []"
    by (cases "get_text h") (simp_all add: py_def)
  then have "get_text (Tag n cs) \<noteq> []" unfolding h .
  from status_from_inside_heading(1)[OF mem[unfolded h] this]
  have inside: "find_next_string nxt = find_next_string (descendants cs)" .
  from heading_body_SomeD(6)[OF body] obtain e where
    e: "find_next_string nxt = Some e" and s: "s = strip e" by blast
  from inside e have "find_next_string (descendants cs) = Some e" by simp
  with mem[unfolded h] s show ?thesis by blast
qed

section \<open>Status text\<close>

text \<open>
  C1. Scenario A: the heading "Wednesday August 27, 2025" followed by the text with the
  time ranges, cutoff 2025-08-28. The parser returns one record, and its status text is
  the heading's own text, not the text that follows the heading: the first string among
  the next elements of a tag is the tag's own first string.
\<close>

theorem scenario_A_status_is_heading_text:
  "parse_available_dates (heading_then_text heading_A slots_A) cutoff_0828
     = Inr [(date_0827, heading_A)] \<and>
   parse_available_dates (heading_then_text heading_A slots_A) cutoff_0828
     \<noteq> Inr [(date_0827, slots_A)]"
  by (simp add: heading_A_def slots_A_def cutoff_0828_def date_0827_def parse_defs
      strptime_defs string_defs)

text \<open>
  C2. Scenario B: the same heading followed by "No more available time slots for this
  date.". The parser returns one record, not zero: the text it tests for the phrase is
  the heading's own text.
\<close>

theorem scenario_B_emits_record:
  "parse_available_dates (heading_then_text heading_A booked_B) cutoff_0828
     = Inr [(date_0827, heading_A)]"
  by (simp add: heading_A_def booked_B_def cutoff_0828_def date_0827_def parse_defs
      strptime_defs string_defs)

section \<open>The cutoff\<close>

text \<open>
  C3. No record of the result has a date after the cutoff; and a heading whose date is
  the cutoff itself, with a status text that is not empty and does not hold the booked
  phrase, has its record in the result.
\<close>

theorem cutoff_inclusive:
  "(parse_available_dates doc cutoff = Inr rs \<longrightarrow> (d, s) \<in> set rs \<longrightarrow> \<not> date_gt d cutoff) \<and>
   ((h, nxt) \<in> set (find_all [py ''h2'', py ''h3'', py ''h4''] doc) \<longrightarrow>
    py_in (py ''202'') (get_text h) \<longrightarrow> strptime (get_text h) = Inr cutoff \<longrightarrow>
    find_next_string nxt = Some e \<longrightarrow> strip e \<noteq> [] \<longrightarrow>
    \<not> py_in (py ''No more available time slots'') (strip e) \<longrightarrow>
    (\<exists>rs'. parse_available_dates doc cutoff = Inr rs' \<and> (cutoff, strip e) \<in> set rs'))"
proof (intro conjI impI)
  assume "parse_available_dates doc cutoff = Inr rs" and "(d, s) \<in> set rs"
  then obtain h' nxt' where "heading_body cutoff h' nxt' = Inr (Some (d, s))"
    using member_emitted by blast
  then show "\<not> date_gt d cutoff" by (rule heading_body_SomeD(3))
next
  assume a: "(h, nxt) \<in> set (find_all [py ''h2'', py ''h3'', py ''h4''] doc)"
    "py_in (py ''202'') (get_text h)" "strptime (get_text h) = Inr cutoff"
    "find_next_string nxt = Some e" "strip e \<noteq> []"
    "\<not> py_in (py ''No more available time slots'') (strip e)"
  have "\<not> date_gt cutoff cutoff" by (simp add: date_gt_def)
  then have "heading_body cutoff h nxt = Inr (Some (cutoff, strip e))"
    using a by (simp add: heading_body_emit)
  then show "\<exists>rs'. parse_available_dates doc cutoff = Inr rs' \<and> (cutoff, strip e) \<in> set rs'"
    using a(1) by (rule emitted_member[rotated])
qed

theorem cutoff_inclusive_witness:
  "(h3 heading_0828, [Str NavigableString heading_0828, Tag (py ''div'') [Str NavigableString slots_A],
      Str NavigableString slots_A])
     \<in> set (find_all [py ''h2'', py ''h3'', py ''h4''] (heading_then_text heading_0828 slots_A)) \<and>
   strptime (get_text (h3 heading_0828)) = Inr cutoff_0828 \<and>
   parse_available_dates (heading_then_text heading_0828 slots_A) cutoff_0828
     = Inr [(cutoff_0828, heading_0828)] \<and>
   \<not> date_gt cutoff_0828 cutoff_0828"
proof -
  let ?nxt = "[Str NavigableString heading_0828, Tag (py ''div'') [Str NavigableString slots_A],
      Str NavigableString slots_A]"
  let ?doc = "heading_then_text heading_0828 slots_A"
  have p: "parse_available_dates ?doc cutoff_0828 = Inr [(cutoff_0828, heading_0828)]"
    by (simp add: heading_0828_def slots_A_def cutoff_0828_def parse_defs strptime_defs
        string_defs)
  have 1: "(h3 heading_0828, ?nxt) \<in> set (find_all [py ''h2'', py ''h3'', py ''h4''] ?doc)"
    by (simp add: h3_def parse_defs py_def)
  have 2: "py_in (py ''202'') (get_text (h3 heading_0828))"
    by (simp add: h3_def heading_0828_def parse_defs string_defs)
  have 3: "strptime (get_text (h3 heading_0828)) = Inr cutoff_0828"
    by (simp add: h3_def heading_0828_def cutoff_0828_def parse_defs strptime_defs string_defs)
  have 5: "find_next_string ?nxt = Some heading_0828"
    by (simp add: heading_0828_def py_def)
  have s: "strip heading_0828 = heading_0828"
    by (simp add: heading_0828_def string_defs)
  have 6: "strip heading_0828 \<noteq> []"
    by (simp add: heading_0828_def string_defs)
  have 7: "\<not> py_in (py ''No more available time slots'') (strip heading_0828)"
    by (simp add: heading_0828_def string_defs)
  from cutoff_inclusive[of ?doc cutoff_0828 "[(cutoff_0828, heading_0828)]" cutoff_0828
      heading_0828 "h3 heading_0828" ?nxt heading_0828] p 1 2 3 5 6 7
  have "\<not> date_gt cutoff_0828 cutoff_0828 \<and>
        (\<exists>rs'. parse_available_dates ?doc cutoff_0828 = Inr rs' \<and>
               (cutoff_0828, strip heading_0828) \<in> set rs')"
    by simp
  with p 1 3 show ?thesis by simp
qed

section \<open>Substrings and digit tokens\<close>

lemma startswith_iff: "startswith s p \<longleftrightarrow> (\<exists>r. s = p @ r)"
  by (induction s p rule: startswith.induct) auto

lemma py_in_iff: "py_in sub s \<longleftrightarrow> (\<exists>pre post. s = pre @ sub @ post)"
proof (induction s)
  case Nil
  then show ?case by auto
next
  case (Cons c cs)
  show ?case
  proof
    assume "py_in sub (c # cs)"
    then consider "startswith (c # cs) sub" | "py_in sub cs" by auto
    then show "\<exists>pre post. c # cs = pre @ sub @ post"
    proof cases
      case 1
      then obtain r where "c # cs = sub @ r" using startswith_iff by blast
      then have "c # cs = [] @ sub @ r" by simp
      then show ?thesis by blast
    next
      case 2
      with Cons obtain pre post where "cs = pre @ sub @ post" by blast
      then have "c # cs = (c # pre) @ sub @ post" by simp
      then show ?thesis by blast
    qed
  next
    assume "\<exists>pre post. c # cs = pre @ sub @ post"
    then obtain pre post where e: "c # cs = pre @ sub @ post" by blast
    show "py_in sub (c # cs)"
    proof (cases pre)
      case Nil
      with e have "startswith (c # cs) sub" using startswith_iff by auto
      then show ?thesis by simp
    next
      case (Cons a pre')
      with e have "cs = pre' @ sub @ post" by simp
      with Cons.IH show ?thesis by auto
    qed
  qed
qed

lemma digit_tokens_sub:
  "tok \<in> set (digit_tokens cur s) \<Longrightarrow> \<exists>pre post. cur @ s = pre @ tok @ post"
proof (induction cur s rule: digit_tokens.induct)
  case (1 cur)
  then have "tok = cur" by (auto split: if_splits)
  then have "cur @ [] = [] @ tok @ []" by simp
  then show ?case by blast
next
  case (2 cur c cs)
  show ?case
  proof (cases "in_range 48 57 c")
    case True
    with 2 obtain pre post where "(cur @ [c]) @ cs = pre @ tok @ post" by auto
    then show ?thesis by auto
  next
    case False
    with 2 consider "tok = cur" | "tok \<in> set (digit_tokens [] cs)" by (auto split: if_splits)
    then show ?thesis
    proof cases
      case 1
      then have "cur @ c # cs = [] @ tok @ (c # cs)" by simp
      then show ?thesis by blast
    next
      case 2
      with "2.IH"(2)[OF False] obtain pre post where "[] @ cs = pre @ tok @ post" by blast
      then have "cur @ c # cs = (cur @ c # pre) @ tok @ post" by simp
      then show ?thesis by blast
    qed
  qed
qed

text \<open>A text with a 4-digit year token starting with "202" contains the substring "202":
  the headings the substring test rejects are among those without such a token.\<close>

lemma year_token_has_202:
  assumes "spec_year_token_202 t"
  shows "py_in (py ''202'') t"
proof -
  from assms obtain tok where tok: "tok \<in> set (digit_tokens [] t)"
    and sw: "startswith tok (py ''202'')"
    by (auto simp: spec_year_token_202_def list_ex_iff)
  from digit_tokens_sub[OF tok] obtain pre post where "t = pre @ tok @ post" by auto
  moreover from sw obtain r where "tok = py ''202'' @ r" using startswith_iff by blast
  ultimately have "t = pre @ py ''202'' @ (r @ post)" by simp
  then show ?thesis using py_in_iff by blast
qed

section \<open>The year filter\<close>

text \<open>
  C4, as stated, fails: the heading "Wednesday August 27, 1202" holds no 4-digit year
  token starting with "202", and yet the parser returns a record for it. The test in the
  code is for the substring "202" anywhere in the heading's text.
\<close>

theorem year_1202_counterexample:
  "\<not> spec_year_token_202 (get_text (h3 heading_1202)) \<and>
   parse_available_dates (heading_then_text heading_1202 slots_A) cutoff_0828
     = Inr [(\<lparr>year = 1202, month = 8, day = 27\<rparr>, heading_1202)]"
  by (simp add: spec_year_token_202_def h3_def heading_1202_def slots_A_def cutoff_0828_def parse_defs
      strptime_defs string_defs)

text \<open>
  C4, amended: a heading whose text does not contain the substring "202" adds no record,
  and a document all of whose headings are such gives the empty result.
\<close>

theorem no_202_no_record:
  "(\<not> py_in (py ''202'') (get_text h) \<longrightarrow> heading_body cutoff h nxt = Inr None) \<and>
   ((\<forall>hn \<in> set (find_all [py ''h2'', py ''h3'', py ''h4''] doc). \<not> py_in (py ''202'') (get_text (fst hn)))
      \<longrightarrow> parse_available_dates doc cutoff = Inr [])"
proof (intro conjI impI)
  assume "\<not> py_in (py ''202'') (get_text h)"
  then show "heading_body cutoff h nxt = Inr None" by (simp add: heading_body_def)
next
  assume a: "\<forall>hn \<in> set (find_all [py ''h2'', py ''h3'', py ''h4''] doc). \<not> py_in (py ''202'') (get_text (fst hn))"
  have "emitted cutoff hn = []" if "hn \<in> set (find_all [py ''h2'', py ''h3'', py ''h4''] doc)" for hn
    using a that by (simp add: emitted_def heading_body_def)
  then show "parse_available_dates doc cutoff = Inr []" unfolding parse_eq by simp
qed

theorem no_202_no_record_witness:
  "\<not> py_in (py ''202'') (get_text (h3 heading_1999)) \<and>
   heading_body cutoff_0828 (h3 heading_1999) [Str NavigableString heading_1999] = Inr None \<and>
   parse_available_dates (heading_then_text heading_1999 slots_A) cutoff_0828 = Inr []"
proof -
  have n: "\<not> py_in (py ''202'') (get_text (h3 heading_1999))"
    by (simp add: h3_def heading_1999_def descendants_def string_defs)
  have a: "\<forall>hn \<in> set (find_all [py ''h2'', py ''h3'', py ''h4''] (heading_then_text heading_1999 slots_A)).
             \<not> py_in (py ''202'') (get_text (fst hn))"
    by (simp add: heading_1999_def parse_defs string_defs)
  from no_202_no_record[of "h3 heading_1999" cutoff_0828 "[Str NavigableString heading_1999]"
      "heading_then_text heading_1999 slots_A"] n a
  show ?thesis by blast
qed

section \<open>No lower bound\<close>




section \<open>Headings that do not parse\<close>

text \<open>
  C9. A heading whose text holds "202" and is not accepted by \<open>strptime\<close> with the
  format "%A %B %d, %Y" adds no record, and no exception leaves the parser: it returns
  a list for every document and cutoff.
\<close>

theorem unparseable_heading_skipped:
  "(py_in (py ''202'') (get_text h) \<longrightarrow> strptime (get_text h) = Inl err \<longrightarrow>
      heading_body cutoff h nxt = Inr None) \<and>
   (\<exists>rs. parse_available_dates doc cutoff = Inr rs)"
proof (intro conjI impI)
  assume "py_in (py ''202'') (get_text h)" and e: "strptime (get_text h) = Inl err"
  from e have "err = ValueError" by (rule strptime_error)
  with e show "heading_body cutoff h nxt = Inr None" by (simp add: heading_body_def Let_def)
next
  show "\<exists>rs. parse_available_dates doc cutoff = Inr rs" unfolding parse_eq by blast
qed

theorem unparseable_heading_skipped_witness:
  "py_in (py ''202'') (get_text (h3 heading_C)) \<and> strptime (get_text (h3 heading_C)) = Inl ValueError \<and>
   heading_body cutoff_0828 (h3 heading_C) [Str NavigableString heading_C] = Inr None \<and>
   parse_available_dates (heading_then_text heading_C slots_A) cutoff_0828 = Inr []"
proof -
  have 1: "py_in (py ''202'') (get_text (h3 heading_C))"
    by (simp add: h3_def heading_C_def descendants_def string_defs)
  have 2: "strptime (get_text (h3 heading_C)) = Inl ValueError"
    by (simp add: h3_def heading_C_def descendants_def strptime_defs string_defs)
  have 3: "parse_available_dates (heading_then_text heading_C slots_A) cutoff_0828 = Inr []"
    by (simp add: heading_C_def slots_A_def cutoff_0828_def parse_defs strptime_defs string_defs)
  from unparseable_heading_skipped[of "h3 heading_C" ValueError cutoff_0828
      "[Str NavigableString heading_C]"] 1 2 3
  show ?thesis by blast
qed

section \<open>The notifier\<close>

text \<open>
  C5. With every required value set and the port value "abc", the notifier raises
  ValueError, whatever the mail session would do: the port is converted before the
  \<open>try\<close> statement.
\<close>

theorem bad_port_raises:
  "send_email_notification env_bad_port smtp_result available url cutoff = ([], Some ValueError)"
  by (simp add: send_email_notification_def env_bad_port_def env_complete_def py_int_def
      string_defs)

text \<open>When the port value converts, nothing leaves the notifier: a failure of the mail
  session is caught and logged.\<close>

lemma notifier_absorbs_session_failure:
  "smtp_port_of env = Inr p \<Longrightarrow>
   snd (send_email_notification env smtp_result available url cutoff) = None"
  by (simp add: send_email_notification_def smtp_port_of_def Let_def split: option.splits)

text \<open>
  C6. With the password absent and the port value "abc", the notifier raises ValueError
  and prints no warning, although the password is the one required value that is missing:
  the port is converted before the required values are checked.
\<close>

theorem missing_password_bad_port_no_warning:
  "missing_keys env_no_password_bad_port = [py ''APPT_MAIL_SMTP_PASSWORD''] \<and>
   send_email_notification env_no_password_bad_port smtp_result available url cutoff
     = ([], Some ValueError)"
  by (simp add: send_email_notification_def env_no_password_bad_port_def env_no_password_def
      missing_keys_def py_int_def string_defs)

text \<open>When the port value converts, a missing required value gives the warning that names
  the missing keys, and no mail session; Scenario F is the case of the password.\<close>

lemma missing_config_warns:
  "smtp_port_of env = Inr p \<Longrightarrow> missing_keys env \<noteq> [] \<Longrightarrow>
   send_email_notification env smtp_result available url cutoff
     = ([Warn_missing (missing_keys env)], None)"
  by (simp add: send_email_notification_def smtp_port_of_def Let_def)

lemma missing_keys_iff:
  "k \<in> set (missing_keys env) \<longleftrightarrow>
     k \<in> {py ''APPT_MAIL_SENDER'', py ''APPT_MAIL_RECIPIENT'', py ''APPT_MAIL_SMTP_SERVER'',
           py ''APPT_MAIL_SMTP_PASSWORD''} \<and> falsy (env k)"
  by (auto simp: missing_keys_def)

lemma scenario_F:
  "send_email_notification env_no_password smtp_result available url cutoff
     = ([Warn_missing [py ''APPT_MAIL_SMTP_PASSWORD'']], None)"
  by (simp add: send_email_notification_def env_no_password_def missing_keys_def
      py_int_def int_max_str_digits_def string_defs)

section \<open>The poll loop\<close>






section \<open>The weekday name\<close>







end
